theory Spec2Isabelle
  imports Complex_Main "HOL-Library.FSet"
begin

section \<open>Values shared by the services\<close>

text \<open>
  LexicalGem is a Telegram bot written in JavaScript. Its state lives in two service
  objects, \<open>WordService\<close> (the word list and the no-repeat cycle) and \<open>UserService\<close>
  (per-user history and streak, the word of the day). Every method is modelled as a
  function from the object's state to a result and the new state. The two things a
  method reads from outside are parameters: the clock (\<open>new Date()\<close>, in milliseconds,
  one parameter per read) and \<open>Math.random()\<close> (a rational \<open>r\<close>, which the
  runtime keeps in \<open>0 \<le> r < 1\<close>). Logger calls have no effect on the state and are
  left out.
\<close>

text \<open>
  A JavaScript string is the list of its UTF-16 code units (integers from \<open>0\<close> to
  \<open>65535\<close>), so that \<open>length\<close> is the string's \<open>.length\<close>. \<open>js\<close> writes an ASCII literal as such a
  list; a character outside the basic plane is its two surrogates.
\<close>

type_synonym jsstring = "int list"

definition js :: "string \<Rightarrow> jsstring" where
  "js s = map of_char s"

datatype error = TypeError | Error jsstring

text \<open>A word object \<open>{word, definition, emoji}\<close>.\<close>

record Word =
  word :: jsstring
  defn :: jsstring
  emoji :: jsstring

text \<open>An array read \<open>xs[i]\<close>: \<open>undefined\<close> (here \<open>None\<close>) outside the array.\<close>

definition at_index :: "'a list \<Rightarrow> int \<Rightarrow> 'a option" where
  "at_index xs i = (if 0 \<le> i \<and> i < int (length xs) then Some (xs ! nat i) else None)"

text \<open>
  \<open>Math.floor(Math.random() * n)\<close> for an array length \<open>n\<close>. The product is taken
  exactly here; the runtime rounds it to a double before the floor, which can move the
  index to a neighbour but keeps it inside \<open>0 \<le> i < n\<close>. Nothing below depends on
  which index a draw selects.
\<close>

definition randomIndex :: "rat \<Rightarrow> nat \<Rightarrow> int" where
  "randomIndex r n = \<lfloor>r * of_nat n\<rfloor>"

text \<open>
  A user id as a caller can pass it (\<open>@param {number|string} userId\<close>): an integer-valued
  number, as Telegram sends it, or a string. As keys of a \<open>Map\<close> the number \<open>1\<close> and the
  string \<open>"1"\<close> are different.
\<close>

datatype userId = NumId int | StrId jsstring

section \<open>Validator\<close>

text \<open>
  The code units that \<open>trim\<close> and \<open>parseInt\<close> strip: the white space and line
  terminators of ECMAScript (tab, line feed, vertical tab, form feed, carriage return,
  space, no-break space, the Unicode space separators, line and paragraph separator,
  and the byte order mark).
\<close>

definition isWhiteSpace :: "int \<Rightarrow> bool" where
  "isWhiteSpace c =
     (c \<in> set [0x09, 0x0A, 0x0B, 0x0C, 0x0D, 0x20, 0xA0, 0x1680, 0x2028, 0x2029,
                0x202F, 0x205F, 0x3000, 0xFEFF] \<or>
      (0x2000 \<le> c \<and> c \<le> 0x200A))"

definition trim :: "jsstring \<Rightarrow> jsstring" where
  "trim s = rev (dropWhile isWhiteSpace (rev (dropWhile isWhiteSpace s)))"

definition isDigit :: "int \<Rightarrow> bool" where
  "isDigit c = (48 \<le> c \<and> c \<le> 57)"

definition isLowerHex :: "int \<Rightarrow> bool" where
  "isLowerHex c = (97 \<le> c \<and> c \<le> 102)"

definition isUpperHex :: "int \<Rightarrow> bool" where
  "isUpperHex c = (65 \<le> c \<and> c \<le> 70)"

definition isHexDigit :: "int \<Rightarrow> bool" where
  "isHexDigit c = (isDigit c \<or> isLowerHex c \<or> isUpperHex c)"

definition digitValue :: "int \<Rightarrow> int" where
  "digitValue c =
     (if isDigit c then c - 48
      else if isLowerHex c then c - 87
      else c - 55)"

definition digitsValue :: "int \<Rightarrow> jsstring \<Rightarrow> int" where
  "digitsValue radix ds = foldl (\<lambda>acc c. acc * radix + digitValue c) 0 ds"

text \<open>
  \<open>parseInt(string)\<close> with no radix: leading white space is skipped, then an optional
  sign (\<open>-\<close> is code unit \<open>0x2D\<close>, \<open>+\<close> is \<open>0x2B\<close>), then an optional \<open>0x\<close> prefix, then the longest run of digits; \<open>NaN\<close> (here
  \<open>None\<close>) when that run is empty. Whatever follows the digits is ignored. The value is
  kept exact; the runtime rounds it to a double, which changes neither its sign nor
  whether it is zero.
\<close>

definition parseIntDigits :: "int \<Rightarrow> jsstring \<Rightarrow> int option" where
  "parseIntDigits sign s =
     (if take 2 s = (js ''0x'') \<or> take 2 s = (js ''0X'') then
        (let z = takeWhile isHexDigit (drop 2 s)
         in if z = [] then None else Some (sign * digitsValue 16 z))
      else
        (let z = takeWhile isDigit s
         in if z = [] then None else Some (sign * digitsValue 10 z)))"

definition parseIntString :: "jsstring \<Rightarrow> int option" where
  "parseIntString str =
     (let s = dropWhile isWhiteSpace str
      in case s of
           [] \<Rightarrow> None
         | c # rest \<Rightarrow>
             if c = 0x2D then parseIntDigits (- 1) rest
             else if c = 0x2B then parseIntDigits 1 rest
             else parseIntDigits 1 s)"

text \<open>
  \<open>parseInt(userId)\<close>. An integer-valued number below \<open>10^21\<close> is first printed as its
  decimal numeral, which \<open>parseInt\<close> reads back.
\<close>

fun parseInt :: "userId \<Rightarrow> int option" where
  "parseInt (NumId n) = Some n"
| "parseInt (StrId s) = parseIntString s"

definition isValidUserId :: "userId \<Rightarrow> bool" where
  "isValidUserId userId = (case parseInt userId of None \<Rightarrow> False | Some id' \<Rightarrow> id' > 0)"

text \<open>
  What \<open>JSON.parse\<close> returns. An object keeps its members in the order of the text; a
  key given twice has the value given last.
\<close>

datatype json =
    JNull
  | JBool bool
  | JNumber rat
  | JString jsstring
  | JArray "json list"
  | JObject "(jsstring \<times> json) list"

definition member :: "(jsstring \<times> json) list \<Rightarrow> jsstring \<Rightarrow> json option" where
  "member kvs k = map_of (rev kvs) k"

definition isNonBlankString :: "json option \<Rightarrow> bool" where
  "isNonBlankString v = (case v of Some (JString s) \<Rightarrow> length (trim s) > 0 | _ \<Rightarrow> False)"

fun isValidWord :: "json \<Rightarrow> bool" where
  "isValidWord (JObject kvs) =
     (isNonBlankString (member kvs (js ''word'')) \<and>
      isNonBlankString (member kvs (js ''definition'')) \<and>
      isNonBlankString (member kvs (js ''emoji'')))"
| "isValidWord _ = False"

definition stringOf :: "json option \<Rightarrow> jsstring" where
  "stringOf v = (case v of Some (JString s) \<Rightarrow> s | _ \<Rightarrow> [])"

text \<open>The three fields of a validated object that the rest of the program reads.\<close>

fun toWord :: "json \<Rightarrow> Word" where
  "toWord (JObject kvs) =
     \<lparr>word = stringOf (member kvs (js ''word'')),
      defn = stringOf (member kvs (js ''definition'')),
      emoji = stringOf (member kvs (js ''emoji''))\<rparr>"
| "toWord _ = \<lparr>word = [], defn = [], emoji = []\<rparr>"

text \<open>
  The two messages of \<open>validateWordsArray\<close>: \<open>Words must be an array\<close> and
  \<open>Invalid word structure at index i\<close>.
\<close>

datatype validationError = WordsMustBeAnArray | InvalidWordStructureAt nat

record Validation =
  valid :: bool
  validWords :: "Word list"
  errors :: "validationError list"

fun validateWordsArray :: "json \<Rightarrow> Validation" where
  "validateWordsArray (JArray ws) =
     (let vs = map toWord (filter isValidWord ws)
      in \<lparr>valid = (length vs > 0),
          validWords = vs,
          errors = map InvalidWordStructureAt
                     (filter (\<lambda>i. \<not> isValidWord (ws ! i)) [0 ..< length ws])\<rparr>)"
| "validateWordsArray _ = \<lparr>valid = False, validWords = [], errors = [WordsMustBeAnArray]\<rparr>"

section \<open>Constants\<close>

definition FALLBACK_WORDS :: "Word list" where
  "FALLBACK_WORDS =
     [\<lparr>word = (js ''Serendipity''),
       defn = (js ''The occurrence of fortunate and unexpected discoveries by chance.''),
       emoji = [0xD83E, 0xDDE0]\<rparr>,
      \<lparr>word = (js ''Peregrine''),
       defn = (js ''Uncommon, strange, or wandering.''),
       emoji = [0xD83D, 0xDCD8]\<rparr>,
      \<lparr>word = (js ''Ineffable''),
       defn = (js ''Too great or beautiful to be expressed in words.''),
       emoji = [0xD83C, 0xDFAD]\<rparr>]"

definition COMMANDS :: "jsstring list" where
  "COMMANDS = [(js ''/start''), (js ''/word''), (js ''/stats''), (js ''/help''), (js ''/wordoftheday''),
               (js ''/history''), (js ''/random''), (js ''/difficulty''), (js ''/share'')]"

section \<open>WordService\<close>

record WordStats =
  totalRequests :: nat
  uniqueUsers :: "userId fset"
  startTime :: int
  loadAttempts :: nat
  lastLoadTime :: "int option"

record WordService =
  words :: "Word list"
  usedWords :: "jsstring fset"
  stats :: WordStats
  isInitialized :: bool

definition WordService_new :: "int \<Rightarrow> WordService" where
  "WordService_new t0 =
     \<lparr>words = [], usedWords = {||},
      stats = \<lparr>totalRequests = 0, uniqueUsers = {||}, startTime = t0,
               loadAttempts = 0, lastLoadTime = None\<rparr>,
      isInitialized = False\<rparr>"

text \<open>
  What reading and parsing \<open>src/words.json\<close> gives: \<open>fs.readFile\<close> rejects, or
  \<open>JSON.parse\<close> throws, or there is a parsed value.
\<close>

datatype source = Unreadable | Unparseable | Parsed json

definition loadFallbackWords :: "WordService \<Rightarrow> WordService" where
  "loadFallbackWords s = s\<lparr>words := FALLBACK_WORDS\<rparr>"

text \<open>
  \<open>loadWords\<close>: the \<open>try\<close> block returns \<open>true\<close>, the \<open>catch\<close> block \<open>false\<close>. The
  method awaits the file read; it is taken as one step, no other request running in
  between.
\<close>

definition loadWords :: "source \<Rightarrow> int \<Rightarrow> WordService \<Rightarrow> bool \<times> WordService" where
  "loadWords src t s =
     (let s1 = s\<lparr>stats := (stats s)\<lparr>loadAttempts := loadAttempts (stats s) + 1,
                                     lastLoadTime := Some t\<rparr>\<rparr>
      in case src of
           Parsed parsedWords \<Rightarrow>
             (let validation = validateWordsArray parsedWords;
                  s2 = s1\<lparr>words := validWords validation\<rparr>;
                  s3 = (if length (words s2) = 0 then loadFallbackWords s2 else s2)
              in (True, s3))
         | _ \<Rightarrow> (False, loadFallbackWords s1))"

definition initialize :: "source \<Rightarrow> int \<Rightarrow> WordService \<Rightarrow> bool \<times> WordService" where
  "initialize src t s =
     (let (success, s1) = loadWords src t s
      in (success, if success then s1\<lparr>isInitialized := True\<rparr> else s1))"

definition resetCycle :: "WordService \<Rightarrow> WordService" where
  "resetCycle s = s\<lparr>usedWords := {||}\<rparr>"

text \<open>
  \<open>WordService.getRandomWord\<close>. The result is \<open>Inr None\<close> for \<open>null\<close>. With \<open>r\<close> outside
  \<open>[0, 1)\<close> the array read gives \<open>undefined\<close> and \<open>selectedWord.word\<close> throws.
\<close>

definition getRandomWord :: "rat \<Rightarrow> WordService \<Rightarrow> (error + Word option) \<times> WordService" where
  "getRandomWord r s =
     (if \<not> isInitialized s \<or> length (words s) = 0 then (Inr None, s)
      else
        (let s1 = (if fcard (usedWords s) \<ge> length (words s) then resetCycle s else s);
             availableWords = filter (\<lambda>w. \<not> word w |\<in>| usedWords s1) (words s1)
         in if length availableWords = 0 then (Inr None, s1)
            else
              (case at_index availableWords (randomIndex r (length availableWords)) of
                 None \<Rightarrow> (Inl TypeError, s1)
               | Some selectedWord \<Rightarrow>
                   (Inr (Some selectedWord),
                    s1\<lparr>usedWords := finsert (word selectedWord) (usedWords s1)\<rparr>))))"

text \<open>
  Double arithmetic, for the percentage of \<open>getStats\<close>. A finite double is the rational
  it denotes. \<open>toDouble\<close> rounds a rational to the nearest double with 53 significant
  bits, a tie going to the even significand; the sizes it is used on are far from the
  subnormal range and from overflow. \<open>binade x\<close> is the \<open>e\<close> with
  \<open>2^e \<le> x < 2^(e+1)\<close> for \<open>x > 0\<close>.
\<close>

function bitLength :: "int \<Rightarrow> nat" where
  "bitLength n = (if n \<le> 0 then 0 else Suc (bitLength (n div 2)))"
  by pat_completeness auto
termination
  by (relation "measure nat") auto

declare bitLength.simps [simp del]

definition pow2 :: "int \<Rightarrow> rat" where
  "pow2 k = (if 0 \<le> k then 2 ^ nat k else 1 / 2 ^ nat (- k))"

definition binade :: "rat \<Rightarrow> int" where
  "binade x =
     (let (p, q) = quotient_of x;
          d = int (bitLength p) - int (bitLength q)
      in if pow2 d \<le> x then d else d - 1)"

definition roundHalfEven :: "rat \<Rightarrow> int" where
  "roundHalfEven m =
     (let f = \<lfloor>m\<rfloor>; d = m - of_int f
      in if d < 1 / 2 then f else if 1 / 2 < d then f + 1 else if even f then f else f + 1)"

definition toDouble :: "rat \<Rightarrow> rat" where
  "toDouble x =
     (if x = 0 then 0
      else (let a = \<bar>x\<bar>; e = binade a;
                m = roundHalfEven (a * pow2 (52 - e))
            in sgn x * of_int m * pow2 (e - 52)))"

text \<open>\<open>Math.round\<close> of a finite number: the nearest integer, a half going up.\<close>

definition mathRound :: "rat \<Rightarrow> int" where
  "mathRound x = \<lfloor>x + 1 / 2\<rfloor>"

text \<open>A JavaScript number as \<open>getStats\<close> can return it in \<open>cycleProgress\<close>.\<close>

datatype jsnum = NaN | Infinity | Num int

text \<open>
  \<open>Math.round((used / total) * 100)\<close> for two sizes: the quotient is rounded to a
  double, then the product. \<open>0 / 0\<close> is \<open>NaN\<close> and \<open>n / 0\<close> is \<open>Infinity\<close>, which
  \<open>* 100\<close> and \<open>Math.round\<close> leave as they are.
\<close>

definition cycleProgressOf :: "nat \<Rightarrow> nat \<Rightarrow> jsnum" where
  "cycleProgressOf used_size words_length =
     (if words_length = 0 then (if used_size = 0 then NaN else Infinity)
      else Num (mathRound
                  (toDouble (toDouble (rat_of_nat used_size / rat_of_nat words_length) * 100))))"

record Stats =
  st_totalWords :: nat
  st_usedWords :: nat
  st_remainingWords :: int
  st_cycleProgress :: jsnum
  st_totalRequests :: nat
  st_uniqueUsers :: nat
  st_isInitialized :: bool
  st_loadAttempts :: nat
  st_lastLoadTime :: "int option"

text \<open>\<open>getStats\<close>, without the \<open>uptime\<close> field (a string printed from the clock).\<close>

definition getStats :: "WordService \<Rightarrow> Stats" where
  "getStats s =
     \<lparr>st_totalWords = length (words s),
      st_usedWords = fcard (usedWords s),
      st_remainingWords = int (length (words s)) - int (fcard (usedWords s)),
      st_cycleProgress = cycleProgressOf (fcard (usedWords s)) (length (words s)),
      st_totalRequests = totalRequests (stats s),
      st_uniqueUsers = fcard (uniqueUsers (stats s)),
      st_isInitialized = isInitialized s,
      st_loadAttempts = loadAttempts (stats s),
      st_lastLoadTime = lastLoadTime (stats s)\<rparr>"

definition recordRequest :: "userId \<Rightarrow> WordService \<Rightarrow> WordService" where
  "recordRequest userId s =
     (if \<not> isValidUserId userId then s
      else s\<lparr>stats := (stats s)\<lparr>totalRequests := totalRequests (stats s) + 1,
                                  uniqueUsers := finsert userId (uniqueUsers (stats s))\<rparr>\<rparr>)"

definition reloadWords :: "source \<Rightarrow> int \<Rightarrow> WordService \<Rightarrow> bool \<times> WordService" where
  "reloadWords src t s = loadWords src t (resetCycle s)"

definition isReady :: "WordService \<Rightarrow> bool" where
  "isReady s = (isInitialized s \<and> length (words s) > 0)"

section \<open>BotManager: starting the services\<close>

text \<open>
  \<open>initializeServices\<close> builds a fresh \<open>WordService\<close>, initializes it and throws when
  that reports \<open>false\<close>; \<open>BotManager.initialize\<close> then returns \<open>false\<close> and \<open>main\<close> exits
  the process.
\<close>

definition initializeServices :: "source \<Rightarrow> int \<Rightarrow> int \<Rightarrow> error + WordService" where
  "initializeServices src t0 t =
     (let (wordServiceReady, ws) = initialize src t (WordService_new t0)
      in if \<not> wordServiceReady then Inl (Error (js ''Failed to initialize WordService''))
         else Inr ws)"

text \<open>The catalog-state invariant: every used key is the text of an active word.\<close>

definition catalogInvariant :: "WordService \<Rightarrow> bool" where
  "catalogInvariant s = (fset (usedWords s) \<subseteq> set (map word (words s)))"

text \<open>The operations that touch the selector state after start-up.\<close>

datatype operation =
    GetRandomWord rat
  | ResetCycle
  | ReloadWords source int
  | RecordRequest userId

fun perform :: "operation \<Rightarrow> WordService \<Rightarrow> WordService" where
  "perform (GetRandomWord r) s = snd (getRandomWord r s)"
| "perform ResetCycle s = resetCycle s"
| "perform (ReloadWords src t) s = snd (reloadWords src t s)"
| "perform (RecordRequest userId) s = recordRequest userId s"

text \<open>Successive calls of \<open>getRandomWord\<close>, one random draw each.\<close>

fun getRandomWords :: "rat list \<Rightarrow> WordService \<Rightarrow> (error + Word option) list \<times> WordService" where
  "getRandomWords [] s = ([], s)"
| "getRandomWords (r # rs) s =
     (let (res, s1) = getRandomWord r s;
          (ress, s2) = getRandomWords rs s1
      in (res # ress, s2))"

text \<open>A word file with two valid entries, and one whose two entries share their text.\<close>

definition gemEntry :: "jsstring \<Rightarrow> jsstring \<Rightarrow> json" where
  "gemEntry w d = JObject [((js ''word''), JString w), ((js ''definition''), JString d), ((js ''emoji''), JString (js ''*''))]"

definition twoWordsFile :: source where
  "twoWordsFile = Parsed (JArray [gemEntry (js ''Serendipity'') (js ''luck''), gemEntry (js ''Peregrine'') (js ''wandering'')])"

definition duplicateFile :: source where
  "duplicateFile = Parsed (JArray [gemEntry (js ''Gem'') (js ''a stone''), gemEntry (js ''Gem'') (js ''a treasure'')])"

definition twoWordsService :: WordService where
  "twoWordsService = snd (initialize twoWordsFile 1 (WordService_new 0))"

definition duplicateService :: WordService where
  "duplicateService = snd (initialize duplicateFile 1 (WordService_new 0))"

definition fallbackUninitialized :: WordService where
  "fallbackUninitialized = snd (initialize Unreadable 1 (WordService_new 0))"

text \<open>The two-word service after two selections.\<close>

definition exhaustedService :: WordService where
  "exhaustedService = snd (getRandomWords [0, 1 / 2] twoWordsService)"

section \<open>UserService\<close>

record HistoryEntry =
  h_word :: jsstring
  h_definition :: jsstring
  h_emoji :: jsstring
  h_timestamp :: int
  h_difficulty :: jsstring

record Preferences =
  categories :: "jsstring list"
  wordLength :: jsstring

record UserStats =
  totalWords :: nat
  streak :: int
  lastUsed :: "int option"

record UserData =
  user_id :: userId
  history :: "HistoryEntry list"
  difficulty :: jsstring
  preferences :: Preferences
  user_stats :: UserStats

record UserService =
  users :: "userId \<rightharpoonup> UserData"
  wordOfTheDay :: "Word option"
  wordOfTheDayDate :: "jsstring option"

definition UserService_new :: UserService where
  "UserService_new = \<lparr>users = Map.empty, wordOfTheDay = None, wordOfTheDayDate = None\<rparr>"

definition newUserData :: "userId \<Rightarrow> UserData" where
  "newUserData userId =
     \<lparr>user_id = userId, history = [], difficulty = (js ''medium''),
      preferences = \<lparr>categories = [], wordLength = (js ''any'')\<rparr>,
      user_stats = \<lparr>totalWords = 0, streak = 0, lastUsed = None\<rparr>\<rparr>"

text \<open>\<open>getUserData\<close> creates the profile on first reference.\<close>

definition getUserData :: "userId \<Rightarrow> UserService \<Rightarrow> UserData \<times> UserService" where
  "getUserData userId s =
     (case users s userId of
        None \<Rightarrow> (newUserData userId, s\<lparr>users := (users s)(userId \<mapsto> newUserData userId)\<rparr>)
      | Some u \<Rightarrow> (u, s))"

definition calculateWordDifficulty :: "Word \<Rightarrow> jsstring" where
  "calculateWordDifficulty w =
     (if length (word w) \<le> 6 \<and> length (defn w) \<le> 100 then (js ''easy'')
      else if length (word w) \<le> 10 \<and> length (defn w) \<le> 150 then (js ''medium'')
      else (js ''hard''))"

definition msPerDay :: int where
  "msPerDay = 1000 * 60 * 60 * 24"

text \<open>
  \<open>updateStreak\<close>, with the clock it reads as \<open>now\<close>. A \<open>Date\<close> object is truthy, so
  \<open>!lastUsed\<close> holds for \<open>null\<close> only. \<open>div\<close> on \<open>int\<close> rounds down, as \<open>Math.floor\<close>
  of the quotient does.
\<close>

definition updateStreak :: "int \<Rightarrow> UserData \<Rightarrow> UserData" where
  "updateStreak now userData =
     (case lastUsed (user_stats userData) of
        None \<Rightarrow> userData\<lparr>user_stats := (user_stats userData)\<lparr>streak := 1\<rparr>\<rparr>
      | Some lastUsed' \<Rightarrow>
          (let daysDiff = (now - lastUsed') div msPerDay
           in if daysDiff = 0 then userData
              else if daysDiff = 1 then
                userData\<lparr>user_stats := (user_stats userData)\<lparr>streak := streak (user_stats userData) + 1\<rparr>\<rparr>
              else userData\<lparr>user_stats := (user_stats userData)\<lparr>streak := 1\<rparr>\<rparr>))"

definition historyEntryOf :: "Word \<Rightarrow> int \<Rightarrow> HistoryEntry" where
  "historyEntryOf w t =
     \<lparr>h_word = word w, h_definition = defn w, h_emoji = emoji w,
      h_timestamp = t, h_difficulty = calculateWordDifficulty w\<rparr>"

text \<open>
  \<open>addToHistory(userId, word)\<close>; \<open>None\<close> is an absent word. The method reads the clock
  three times, in this order: \<open>t_entry\<close> for the entry's timestamp, \<open>t_used\<close> for
  \<open>stats.lastUsed\<close>, and \<open>t_now\<close> inside \<open>updateStreak\<close>, which runs after
  \<open>lastUsed\<close> has been overwritten.
\<close>

definition addToHistory ::
    "userId \<Rightarrow> Word option \<Rightarrow> int \<Rightarrow> int \<Rightarrow> int \<Rightarrow> UserService \<Rightarrow> UserService" where
  "addToHistory userId word' t_entry t_used t_now s =
     (if \<not> isValidUserId userId then s
      else
        case word' of
          None \<Rightarrow> s
        | Some w \<Rightarrow>
            (let (userData, s1) = getUserData userId s;
                 historyEntry = historyEntryOf w t_entry;
                 h1 = historyEntry # history userData;
                 u1 = userData\<lparr>history := (if length h1 > 50 then take 50 h1 else h1)\<rparr>;
                 u2 = u1\<lparr>user_stats := (user_stats u1)\<lparr>totalWords := totalWords (user_stats u1) + 1\<rparr>\<rparr>;
                 u3 = u2\<lparr>user_stats := (user_stats u2)\<lparr>lastUsed := Some t_used\<rparr>\<rparr>;
                 u4 = updateStreak t_now u3
             in s1\<lparr>users := (users s1)(userId \<mapsto> u4)\<rparr>))"

text \<open>
  \<open>xs.slice(0, end)\<close> for an integer \<open>end\<close>: a negative \<open>end\<close> counts from the end of
  the array.
\<close>

definition slice0 :: "'a list \<Rightarrow> int \<Rightarrow> 'a list" where
  "slice0 xs end' =
     (if end' < 0 then take (nat (int (length xs) + end')) xs else take (nat end') xs)"

text \<open>\<open>getHistory(userId, limit = 10)\<close>; \<open>None\<close> is an omitted limit.\<close>

definition getHistory :: "userId \<Rightarrow> int option \<Rightarrow> UserService \<Rightarrow> HistoryEntry list \<times> UserService" where
  "getHistory userId limit s =
     (if \<not> isValidUserId userId then ([], s)
      else
        (let (userData, s1) = getUserData userId s
         in (slice0 (history userData) (case limit of None \<Rightarrow> 10 | Some l \<Rightarrow> l), s1)))"

text \<open>
  \<open>getWordOfTheDay(words)\<close> with the date string \<open>today\<close> it reads from the clock.
  When it regenerates on an empty list the array read gives \<open>undefined\<close>, which is
  stored, and reading its \<open>word\<close> property throws.
\<close>

definition getWordOfTheDay ::
    "Word list \<Rightarrow> jsstring \<Rightarrow> rat \<Rightarrow> UserService \<Rightarrow> (error + Word) \<times> UserService" where
  "getWordOfTheDay ws today r s =
     (let s1 = (if wordOfTheDayDate s \<noteq> Some today \<or> wordOfTheDay s = None
                then s\<lparr>wordOfTheDay := at_index ws (randomIndex r (length ws)),
                       wordOfTheDayDate := Some today\<rparr>
                else s)
      in case wordOfTheDay s1 of
           None \<Rightarrow> (Inl TypeError, s1)
         | Some w \<Rightarrow> (Inr w, s1))"

text \<open>
  \<open>UserService.getRandomWord(words)\<close>: it never throws; \<open>Inr None\<close> is the value
  \<open>undefined\<close>.
\<close>

definition UserService_getRandomWord :: "Word list \<Rightarrow> rat \<Rightarrow> error + Word option" where
  "UserService_getRandomWord ws r = Inr (at_index ws (randomIndex r (length ws)))"

text \<open>Recording a list of words for one user, each with its three clock reads.\<close>

fun addAllToHistory :: "userId \<Rightarrow> (Word \<times> int \<times> int \<times> int) list \<Rightarrow> UserService \<Rightarrow> UserService" where
  "addAllToHistory userId [] s = s"
| "addAllToHistory userId ((w, t_entry, t_used, t_now) # rest) s =
     addAllToHistory userId rest (addToHistory userId (Some w) t_entry t_used t_now s)"

text \<open>
  A user id that is a positive integer, in the words of the specification: a positive
  integer-valued number, or a string that is the decimal numeral of one.
\<close>

definition isPositiveInteger :: "userId \<Rightarrow> bool" where
  "isPositiveInteger userId =
     (case userId of
        NumId n \<Rightarrow> n > 0
      | StrId s \<Rightarrow> s \<noteq> [] \<and> list_all isDigit s \<and> digitsValue 10 s > 0)"

text \<open>Reading one user's streak and history out of the store.\<close>

definition streakOf :: "userId \<Rightarrow> UserService \<Rightarrow> int option" where
  "streakOf userId s = map_option (\<lambda>u. streak (user_stats u)) (users s userId)"

definition historyOf :: "userId \<Rightarrow> UserService \<Rightarrow> HistoryEntry list" where
  "historyOf userId s = (case users s userId of None \<Rightarrow> [] | Some u \<Rightarrow> history u)"

text \<open>A user's first word, and a second one exactly a day later.\<close>

definition sampleWord :: Word where
  "sampleWord = \<lparr>word = (js ''Gem''), defn = (js ''a stone''), emoji = (js ''*'')\<rparr>"

definition firstDay :: UserService where
  "firstDay = addToHistory (NumId 7) (Some sampleWord) 1000 1000 1000 UserService_new"

definition secondDay :: UserService where
  "secondDay =
     addToHistory (NumId 7) (Some sampleWord) (1000 + msPerDay) (1000 + msPerDay) (1000 + msPerDay)
       firstDay"

text \<open>A second word, and a store that has cached the word of the day for one date.\<close>

definition otherWord :: Word where
  "otherWord = \<lparr>word = (js ''Opal''), defn = (js ''another stone''), emoji = (js ''*'')\<rparr>"

definition cachedService :: UserService where
  "cachedService = snd (getWordOfTheDay [sampleWord] (js ''Mon Nov 02 2026'') 0 UserService_new)"

text \<open>Sixty recordings for one user, and the history entry a recording makes.\<close>

definition sixtyWords :: "(Word \<times> int \<times> int \<times> int) list" where
  "sixtyWords =
     map (\<lambda>i. (\<lparr>word = (js ''Gem'') @ [48 + int (i mod 10)], defn = (js ''a stone''), emoji = (js ''*'')\<rparr>,
               int i, int i, int i))
       [0 ..< 60]"

definition recordedEntry :: "Word \<times> int \<times> int \<times> int \<Rightarrow> HistoryEntry" where
  "recordedEntry rec = (case rec of (w, t_entry, t_used, t_now) \<Rightarrow> historyEntryOf w t_entry)"

text \<open>The store after those sixty recordings for user \<open>7\<close>, and after the first twelve.\<close>

definition sixtyStore :: UserService where
  "sixtyStore = addAllToHistory (NumId 7) sixtyWords UserService_new"

definition twelveStore :: UserService where
  "twelveStore = addAllToHistory (NumId 7) (take 12 sixtyWords) UserService_new"

section \<open>Command dispatch\<close>

record Message =
  msg_text :: "jsstring option"
  from_id :: userId
  chat_id :: int

definition UNKNOWN_COMMAND :: jsstring where
  "UNKNOWN_COMMAND =
     [0xD83D, 0xDC8E] @ (js '' *LexicalGem*'') @ [0x0A, 0x0A] @
     (js ''I'') @ [0x27] @ (js ''m here to share rare words with you! '') @ [0x0A, 0x0A] @
     (js ''Try typing /word to discover a linguistic gem, or /help to see all available commands.'')"

text \<open>What a message makes the bot do: run a command's handler, or send a text.\<close>

datatype effect = ExecuteCommand jsstring | SendMessage int jsstring

text \<open>
  \<open>registerCommand\<close> gives the Telegram client the regular expression \<open>^command$\<close>,
  every special character of the command escaped. The client (not part of this
  repository) runs the callback of every registered expression that matches the text of
  an incoming message. With no flag, \<open>^\<close> and \<open>$\<close> match only at the two ends of the
  text, so the expression matches exactly the command itself.
\<close>

definition registeredCommands :: "jsstring list" where
  "registeredCommands = COMMANDS"

definition onTextMatches :: "jsstring \<Rightarrow> jsstring \<Rightarrow> bool" where
  "onTextMatches command t = (t = command)"

definition onTextCallbacks :: "Message \<Rightarrow> effect list" where
  "onTextCallbacks msg =
     (case msg_text msg of
        None \<Rightarrow> []
      | Some t \<Rightarrow> map ExecuteCommand (filter (\<lambda>command. onTextMatches command t) registeredCommands))"

record BotManager =
  wordService :: WordService
  isShuttingDown :: bool
  totalMessages :: nat

text \<open>\<open>CommandHandler.handleUnknownCommand\<close>\<close>

definition handleUnknownCommand :: "Message \<Rightarrow> WordService \<Rightarrow> effect list \<times> WordService" where
  "handleUnknownCommand msg ws =
     (if \<not> isValidUserId (from_id msg) then ([], ws)
      else ([SendMessage (chat_id msg) UNKNOWN_COMMAND], recordRequest (from_id msg) ws))"

text \<open>\<open>msg.text.startsWith(cmd)\<close> for some command\<close>

definition startsWith :: "jsstring \<Rightarrow> jsstring \<Rightarrow> bool" where
  "startsWith t cmd = (take (length cmd) t = cmd)"

definition isCommand :: "jsstring \<Rightarrow> bool" where
  "isCommand t = list_ex (\<lambda>cmd. startsWith t cmd) COMMANDS"

text \<open>\<open>BotManager.handleMessage\<close>; a missing or empty text is falsy.\<close>

definition handleMessage :: "Message \<Rightarrow> BotManager \<Rightarrow> effect list \<times> BotManager" where
  "handleMessage msg b =
     (case msg_text msg of
        None \<Rightarrow> ([], b)
      | Some t \<Rightarrow>
          if t = [] \<or> isShuttingDown b then ([], b)
          else
            (let b1 = b\<lparr>totalMessages := totalMessages b + 1\<rparr>
             in if \<not> isCommand t then
                  (let (out, ws) = handleUnknownCommand msg (wordService b1)
                   in (out, b1\<lparr>wordService := ws\<rparr>))
                else ([], b1)))"

text \<open>
  One incoming message: the \<open>message\<close> listener (\<open>handleMessage\<close>) and the callbacks
  registered with \<open>onText\<close>.
\<close>

definition processMessage :: "Message \<Rightarrow> BotManager \<Rightarrow> effect list \<times> BotManager" where
  "processMessage msg b =
     (let (out, b1) = handleMessage msg b
      in (out @ onTextCallbacks msg, b1))"

text \<open>The leading token of a text, in the words of the specification: up to the first white space.\<close>

definition leadingToken :: "jsstring \<Rightarrow> jsstring" where
  "leadingToken t = takeWhile (\<lambda>c. \<not> isWhiteSpace c) t"

text \<open>A running bot, and a message from user \<open>7\<close> in chat \<open>42\<close>.\<close>

definition idleBot :: BotManager where
  "idleBot = \<lparr>wordService = twoWordsService, isShuttingDown = False, totalMessages = 0\<rparr>"

definition messageWith :: "jsstring \<Rightarrow> Message" where
  "messageWith t = \<lparr>msg_text = Some t, from_id = NumId 7, chat_id = 42\<rparr>"

section \<open>The progress percentage\<close>

text \<open>
  C3. On a service whose word list is empty (a freshly constructed one), \<open>getStats\<close>
  computes \<open>0 / 0\<close>: the cycle progress it returns is \<open>NaN\<close>, not \<open>0\<close>.
\<close>

theorem getStats_empty_is_NaN:
  "length (words (WordService_new 0)) = 0 \<and>
   st_cycleProgress (getStats (WordService_new 0)) = NaN \<and>
   st_cycleProgress (getStats (WordService_new 0)) \<noteq> Num 0"
  by (simp add: getStats_def WordService_new_def cycleProgressOf_def)

text \<open>
  The percentage in double arithmetic: \<open>23 / 40\<close> is the double just below \<open>0.575\<close>
  and its product with \<open>100\<close> rounds to a double below \<open>57.5\<close>, so the result is
  \<open>57\<close>; likewise \<open>29\<close> of \<open>200\<close> gives \<open>14\<close>, while \<open>1\<close> of \<open>8\<close> is exactly
  \<open>12.5\<close> and gives \<open>13\<close>.
\<close>

lemma cycleProgressOf_doubles:
  "cycleProgressOf 23 40 = Num 57 \<and> cycleProgressOf 29 200 = Num 14 \<and>
   cycleProgressOf 1 8 = Num 13 \<and> cycleProgressOf 2 3 = Num 67 \<and>
   cycleProgressOf 3 3 = Num 100 \<and> cycleProgressOf 0 3 = Num 0"
  by code_simp

section \<open>Strings as code units\<close>

text \<open>
  A no-break space is white space for \<open>trim\<close> and for \<open>parseInt\<close>: a word made of one
  is rejected by the validator, and the id of a no-break space followed by \<open>5\<close> is
  valid. The length of a word counts code units: the word facade, written with a
  cedilla (code unit \<open>0xE7\<close>), has six.
\<close>

lemma white_space_beyond_ascii:
  "trim [0xA0] = [] \<and>
   \<not> isValidWord (gemEntry [0xA0] (js ''a stone'')) \<and>
   isValidUserId (StrId ([0xA0] @ js ''5''))"
  by code_simp

lemma difficulty_counts_code_units:
  "calculateWordDifficulty
     \<lparr>word = js ''fa'' @ [0xE7] @ js ''ade'', defn = js ''the front of a building'',
      emoji = js ''*''\<rparr> = js ''easy''"
  by code_simp

section \<open>Loading the words\<close>

text \<open>
  C5. When the word file cannot be read or parsed, the fallback words become the active
  list, but \<open>loadWords\<close> returns \<open>false\<close>: the service is left uninitialized and not
  ready, and \<open>initializeServices\<close> throws. (A file that parses to no valid word takes
  the other path: fallback words, and the service starts.)
\<close>

theorem load_failure_fails_startup:
  "words fallbackUninitialized = FALLBACK_WORDS \<and>
   fst (initialize Unreadable 1 (WordService_new 0)) = False \<and>
   isInitialized fallbackUninitialized = False \<and>
   isReady fallbackUninitialized = False \<and>
   initializeServices Unreadable 0 1 = Inl (Error (js ''Failed to initialize WordService'')) \<and>
   initializeServices Unparseable 0 1 = Inl (Error (js ''Failed to initialize WordService'')) \<and>
   (\<exists>ws. initializeServices (Parsed (JArray [])) 0 1 = Inr ws \<and> words ws = FALLBACK_WORDS \<and> isReady ws)"
  by (simp add: fallbackUninitialized_def initialize_def loadWords_def loadFallbackWords_def
      WordService_new_def isReady_def initializeServices_def FALLBACK_WORDS_def)

section \<open>Random draws\<close>

lemma at_index_Some: "at_index xs i = Some x \<Longrightarrow> x \<in> set xs"
  by (auto simp: at_index_def split: if_splits)

lemma randomIndex_range:
  assumes "0 \<le> r" "r < 1" "0 < n"
  shows "0 \<le> randomIndex r n \<and> randomIndex r n < int n"
proof -
  have "0 \<le> r * of_nat n" using assms by simp
  then have a: "0 \<le> randomIndex r n" by (simp add: randomIndex_def)
  have "r * of_nat n < of_nat n" using assms by simp
  then have "\<lfloor>r * of_nat n\<rfloor> < int n" by (simp add: floor_less_iff)
  then show ?thesis using a by (simp add: randomIndex_def)
qed

lemma at_index_random:
  assumes "0 \<le> r" "r < 1" "xs \<noteq> []"
  shows "\<exists>x. at_index xs (randomIndex r (length xs)) = Some x \<and> x \<in> set xs"
  using randomIndex_range[OF assms(1,2), of "length xs"] assms(3)
  by (auto simp: at_index_def)

text \<open>The service started from the two-word file.\<close>

lemma words_twoWordsService:
  "words twoWordsService =
     [\<lparr>word = (js ''Serendipity''), defn = (js ''luck''), emoji = (js ''*'')\<rparr>,
      \<lparr>word = (js ''Peregrine''), defn = (js ''wandering''), emoji = (js ''*'')\<rparr>]"
  by code_simp

lemma twoWordsService_ready:
  "isInitialized twoWordsService \<and> usedWords twoWordsService = {||}"
  by code_simp

section \<open>The catalog invariant\<close>

lemma usedWords_loadWords: "usedWords (snd (loadWords src t s)) = usedWords s"
  by (cases src) (simp_all add: loadWords_def loadFallbackWords_def Let_def)

lemma reloadWords_clears: "usedWords (snd (reloadWords src t s)) = {||}"
  by (simp add: reloadWords_def usedWords_loadWords resetCycle_def)

lemma catalogInvariant_resetCycle: "catalogInvariant (resetCycle s)"
  by (simp add: catalogInvariant_def resetCycle_def)

lemma catalogInvariant_reloadWords: "catalogInvariant (snd (reloadWords src t s))"
  by (simp add: catalogInvariant_def reloadWords_clears)

lemma catalogInvariant_initialize: "catalogInvariant (snd (initialize src t (WordService_new t0)))"
proof -
  have "usedWords (snd (initialize src t (WordService_new t0))) = usedWords (WordService_new t0)"
    using usedWords_loadWords[of src t "WordService_new t0"]
    by (cases "loadWords src t (WordService_new t0)") (auto simp: initialize_def)
  then show ?thesis by (simp add: catalogInvariant_def WordService_new_def)
qed

lemma catalogInvariant_recordRequest:
  "catalogInvariant s \<Longrightarrow> catalogInvariant (recordRequest u s)"
  by (simp add: catalogInvariant_def recordRequest_def)

lemma getRandomWord_cases:
  "getRandomWord r s = (res, s') \<Longrightarrow>
     (s' = s \<or> s' = resetCycle s \<or>
      (\<exists>w \<in> set (words s). s' = s\<lparr>usedWords := finsert (word w) (usedWords s)\<rparr>) \<or>
      (\<exists>w \<in> set (words s). s' = s\<lparr>usedWords := {|word w|}\<rparr>))"
  by (auto simp: getRandomWord_def Let_def resetCycle_def split: if_splits option.splits
      dest!: at_index_Some)

lemma catalogInvariant_getRandomWord:
  assumes "catalogInvariant s"
  shows "catalogInvariant (snd (getRandomWord r s))"
proof -
  obtain res s' where g: "getRandomWord r s = (res, s')" by (cases "getRandomWord r s")
  from getRandomWord_cases[OF g] assms have "catalogInvariant s'"
    by (auto simp: catalogInvariant_def resetCycle_def)
  then show ?thesis using g by simp
qed

text \<open>
  C7. The invariant \<open>usedWords \<subseteq> {w.word | w in words}\<close> holds once the service is
  constructed and initialized, and every operation on the selector state keeps it:
  word selection, cycle reset, reload and request recording. Reset and reload leave the
  used set empty, whatever it was before.
\<close>

theorem catalogInvariant_holds:
  "catalogInvariant (snd (initialize src t (WordService_new t0))) \<and>
   (catalogInvariant s \<longrightarrow> catalogInvariant (perform op s)) \<and>
   usedWords (perform ResetCycle s) = {||} \<and>
   usedWords (perform (ReloadWords src t) s) = {||}"
proof -
  have "catalogInvariant s \<longrightarrow> catalogInvariant (perform op s)"
    by (cases op)
       (simp_all add: catalogInvariant_getRandomWord catalogInvariant_resetCycle
         catalogInvariant_reloadWords catalogInvariant_recordRequest)
  moreover have "usedWords (perform ResetCycle s) = {||}"
    by (simp add: resetCycle_def)
  moreover have "usedWords (perform (ReloadWords src t) s) = {||}"
    by (simp add: reloadWords_clears)
  ultimately show ?thesis
    using catalogInvariant_initialize by blast
qed

theorem catalogInvariant_holds_witness:
  "catalogInvariant twoWordsService \<and>
   catalogInvariant (perform (GetRandomWord (1 / 2)) twoWordsService)"
proof -
  have h: "catalogInvariant twoWordsService"
    by (simp add: catalogInvariant_def twoWordsService_ready)
  show ?thesis
    using h catalogInvariant_holds[of twoWordsFile 1 0 twoWordsService "GetRandomWord (1 / 2)"]
    by simp
qed

section \<open>Selection without repetition\<close>

text \<open>With distinct texts and fewer used keys than words, some word is still unused.\<close>

lemma available_nonempty:
  assumes d: "distinct (map word ws)" and c: "fcard U < length ws"
  shows "filter (\<lambda>w. \<not> word w |\<in>| U) ws \<noteq> []"
proof
  assume "filter (\<lambda>w. \<not> word w |\<in>| U) ws = []"
  then have "\<forall>w \<in> set ws. word w |\<in>| U" by (simp add: filter_empty_conv)
  then have "set (map word ws) \<subseteq> fset U" by auto
  then have "card (set (map word ws)) \<le> card (fset U)"
    by (intro card_mono) simp_all
  then have "length ws \<le> fcard U"
    using distinct_card[OF d] by (simp add: fcard.rep_eq)
  with c show False by simp
qed

lemma getRandomWord_null_guard:
  "\<not> isInitialized s \<or> words s = [] \<Longrightarrow> getRandomWord r s = (Inr None, s)"
  by (auto simp: getRandomWord_def)

lemma getRandomWord_fresh:
  assumes "isInitialized s" "words s \<noteq> []" "distinct (map word (words s))"
    and "0 \<le> r" "r < 1" "fcard (usedWords s) < length (words s)"
  shows "\<exists>w \<in> set (words s). word w |\<notin>| usedWords s \<and>
           getRandomWord r s = (Inr (Some w), s\<lparr>usedWords := finsert (word w) (usedWords s)\<rparr>)"
proof -
  let ?av = "filter (\<lambda>w. \<not> word w |\<in>| usedWords s) (words s)"
  have ne: "?av \<noteq> []" using available_nonempty[OF assms(3) assms(6)] .
  from at_index_random[OF assms(4,5) ne] obtain w
    where w: "at_index ?av (randomIndex r (length ?av)) = Some w" "w \<in> set ?av" by blast
  have "getRandomWord r s = (Inr (Some w), s\<lparr>usedWords := finsert (word w) (usedWords s)\<rparr>)"
    using assms(1,2,6) ne w(1) by (simp add: getRandomWord_def Let_def)
  with w(2) show ?thesis by auto
qed

lemma getRandomWord_reset:
  assumes "isInitialized s" "words s \<noteq> []"
    and "0 \<le> r" "r < 1" "length (words s) \<le> fcard (usedWords s)"
  shows "\<exists>w \<in> set (words s).
           getRandomWord r s = (Inr (Some w), s\<lparr>usedWords := {|word w|}\<rparr>)"
proof -
  from at_index_random[OF assms(3,4) assms(2)] obtain w
    where w: "at_index (words s) (randomIndex r (length (words s))) = Some w" "w \<in> set (words s)"
    by blast
  have "getRandomWord r s = (Inr (Some w), s\<lparr>usedWords := {|word w|}\<rparr>)"
    using assms(1,2,5) w(1) by (simp add: getRandomWord_def Let_def resetCycle_def)
  with w(2) show ?thesis by auto
qed

lemma getRandomWords_fresh:
  assumes "isInitialized s" "distinct (map word (words s))"
    and "\<forall>q \<in> set rs. 0 \<le> q \<and> q < 1"
    and "fcard (usedWords s) + length rs \<le> length (words s)"
  shows "\<exists>ws s'. getRandomWords rs s = (map (\<lambda>w. Inr (Some w)) ws, s') \<and>
           length ws = length rs \<and> set ws \<subseteq> set (words s) \<and> distinct (map word ws) \<and>
           (\<forall>w \<in> set ws. word w |\<notin>| usedWords s) \<and>
           usedWords s' = usedWords s |\<union>| fset_of_list (map word ws) \<and>
           fcard (usedWords s') = fcard (usedWords s) + length rs \<and>
           words s' = words s \<and> isInitialized s'"
  using assms
proof (induction rs arbitrary: s)
  case Nil
  then show ?case by (intro exI[of _ "[]"] exI[of _ s]) simp
next
  case (Cons r rs)
  have ne: "words s \<noteq> []" using Cons.prems(4) by auto
  have lt: "fcard (usedWords s) < length (words s)" using Cons.prems(4) by simp
  from getRandomWord_fresh[OF Cons.prems(1) ne Cons.prems(2) _ _ lt, of r] Cons.prems(3)
  obtain w where w: "w \<in> set (words s)" "word w |\<notin>| usedWords s"
    "getRandomWord r s = (Inr (Some w), s\<lparr>usedWords := finsert (word w) (usedWords s)\<rparr>)"
    by auto
  let ?s1 = "s\<lparr>usedWords := finsert (word w) (usedWords s)\<rparr>"
  have c1: "fcard (usedWords ?s1) = Suc (fcard (usedWords s))"
    using w(2) by (simp add: fcard_finsert_disjoint)
  have "\<exists>ws s'. getRandomWords rs ?s1 = (map (\<lambda>w. Inr (Some w)) ws, s') \<and>
           length ws = length rs \<and> set ws \<subseteq> set (words ?s1) \<and> distinct (map word ws) \<and>
           (\<forall>w \<in> set ws. word w |\<notin>| usedWords ?s1) \<and>
           usedWords s' = usedWords ?s1 |\<union>| fset_of_list (map word ws) \<and>
           fcard (usedWords s') = fcard (usedWords ?s1) + length rs \<and>
           words s' = words ?s1 \<and> isInitialized s'"
    using Cons.prems c1 by (intro Cons.IH) simp_all
  then obtain ws s' where IH:
    "getRandomWords rs ?s1 = (map (\<lambda>w. Inr (Some w)) ws, s')"
    "length ws = length rs" "set ws \<subseteq> set (words s)" "distinct (map word ws)"
    "\<forall>w' \<in> set ws. word w' |\<notin>| finsert (word w) (usedWords s)"
    "usedWords s' = finsert (word w) (usedWords s) |\<union>| fset_of_list (map word ws)"
    "fcard (usedWords s') = fcard (usedWords ?s1) + length rs"
    "words s' = words s" "isInitialized s'"
    by auto
  have "getRandomWords (r # rs) s = (map (\<lambda>w. Inr (Some w)) (w # ws), s')"
    using w(3) IH(1) by simp
  moreover have "distinct (map word (w # ws))" using IH(4,5) by auto
  moreover have "\<forall>w' \<in> set (w # ws). word w' |\<notin>| usedWords s" using w(2) IH(5) by auto
  moreover have "usedWords s' = usedWords s |\<union>| fset_of_list (map word (w # ws))"
    using IH(6) by auto
  moreover have "fcard (usedWords s') = fcard (usedWords s) + length (r # rs)"
    using IH(7) c1 by simp
  ultimately show ?case using w(1) IH(2,3,8,9)
    by (intro exI[of _ "w # ws"] exI[of _ s']) simp
qed

lemma distinct_cover:
  assumes "distinct (map f ws)" "set ws \<subseteq> set xs" "length ws = length xs" "distinct (map f xs)"
  shows "set ws = set xs"
proof -
  have dw: "distinct ws" using assms(1) by (simp add: distinct_map)
  have dx: "distinct xs" using assms(4) by (simp add: distinct_map)
  have "card (set ws) = card (set xs)" using dw dx assms(3) by (simp add: distinct_card)
  then show ?thesis using assms(2) by (simp add: card_subset_eq)
qed

text \<open>
  C1, as the code has it. Take a word list with pairwise distinct texts and a draw
  \<open>0 \<le> r < 1\<close>. Then \<open>getRandomWord\<close> returns \<open>null\<close> exactly when the service is not
  initialized or the list is empty. On an initialized service with a non-empty list:
  while fewer keys are used than there are words, it returns a word of the list whose
  text was not used and adds that text; once the used keys are as many as the words, it
  clears them first and then returns a word of the list. Starting from an empty used
  set, \<open>|words|\<close> calls return every word exactly once, and the call after them clears
  the used set and succeeds.
\<close>

theorem getRandomWord_no_repeat:
  assumes d: "distinct (map word (words s))" and r: "0 \<le> r" "r < 1"
  shows "((fst (getRandomWord r s) = Inr None) = (\<not> isInitialized s \<or> words s = [])) \<and>
    (isInitialized s \<and> words s \<noteq> [] \<and> fcard (usedWords s) < length (words s) \<longrightarrow>
       (\<exists>w \<in> set (words s). word w |\<notin>| usedWords s \<and>
          getRandomWord r s = (Inr (Some w), s\<lparr>usedWords := finsert (word w) (usedWords s)\<rparr>))) \<and>
    (isInitialized s \<and> words s \<noteq> [] \<and> length (words s) \<le> fcard (usedWords s) \<longrightarrow>
       (\<exists>w \<in> set (words s). getRandomWord r s = (Inr (Some w), s\<lparr>usedWords := {|word w|}\<rparr>))) \<and>
    (isInitialized s \<and> words s \<noteq> [] \<and> usedWords s = {||} \<and> length rs = length (words s) \<and>
     (\<forall>q \<in> set rs. 0 \<le> q \<and> q < 1) \<longrightarrow>
       (\<exists>ws s'. getRandomWords rs s = (map (\<lambda>w. Inr (Some w)) ws, s') \<and>
          distinct (map word ws) \<and> set ws = set (words s) \<and>
          fcard (usedWords s') = length (words s) \<and>
          (\<exists>w \<in> set (words s).
             getRandomWord r s' = (Inr (Some w), s'\<lparr>usedWords := {|word w|}\<rparr>))))"
proof (intro conjI impI)
  show "(fst (getRandomWord r s) = Inr None) = (\<not> isInitialized s \<or> words s = [])"
  proof (cases "\<not> isInitialized s \<or> words s = []")
    case True
    then show ?thesis using getRandomWord_null_guard[of s r] by simp
  next
    case False
    then have i: "isInitialized s" and ne: "words s \<noteq> []" by auto
    have "fst (getRandomWord r s) \<noteq> Inr None"
    proof (cases "fcard (usedWords s) < length (words s)")
      case True
      from getRandomWord_fresh[OF i ne d r True] show ?thesis by auto
    next
      case False
      then have "length (words s) \<le> fcard (usedWords s)" by simp
      from getRandomWord_reset[OF i ne r this] show ?thesis by auto
    qed
    with False show ?thesis by simp
  qed
next
  assume "isInitialized s \<and> words s \<noteq> [] \<and> fcard (usedWords s) < length (words s)"
  then show "\<exists>w \<in> set (words s). word w |\<notin>| usedWords s \<and>
          getRandomWord r s = (Inr (Some w), s\<lparr>usedWords := finsert (word w) (usedWords s)\<rparr>)"
    using getRandomWord_fresh[OF _ _ d r] by blast
next
  assume "isInitialized s \<and> words s \<noteq> [] \<and> length (words s) \<le> fcard (usedWords s)"
  then show "\<exists>w \<in> set (words s). getRandomWord r s = (Inr (Some w), s\<lparr>usedWords := {|word w|}\<rparr>)"
    using getRandomWord_reset[OF _ _ r] by blast
next
  assume a: "isInitialized s \<and> words s \<noteq> [] \<and> usedWords s = {||} \<and> length rs = length (words s) \<and>
     (\<forall>q \<in> set rs. 0 \<le> q \<and> q < 1)"
  then have "fcard (usedWords s) + length rs \<le> length (words s)" by simp
  from getRandomWords_fresh[OF _ d _ this] a
  obtain ws s' where run: "getRandomWords rs s = (map (\<lambda>w. Inr (Some w)) ws, s')"
    "length ws = length rs" "set ws \<subseteq> set (words s)" "distinct (map word ws)"
    "fcard (usedWords s') = fcard (usedWords s) + length rs"
    "words s' = words s" "isInitialized s'"
    by blast
  have cover: "set ws = set (words s)"
    using distinct_cover[OF run(4) run(3) _ d] run(2) a by simp
  have full: "length (words s') \<le> fcard (usedWords s')" using run(5,6) a by simp
  have ne': "words s' \<noteq> []" using run(6) a by simp
  from getRandomWord_reset[OF run(7) ne' r full] run(6)
  have "\<exists>w \<in> set (words s). getRandomWord r s' = (Inr (Some w), s'\<lparr>usedWords := {|word w|}\<rparr>)"
    by simp
  moreover have "fcard (usedWords s') = length (words s)" using run(5) a by simp
  ultimately show "\<exists>ws s'. getRandomWords rs s = (map (\<lambda>w. Inr (Some w)) ws, s') \<and>
          distinct (map word ws) \<and> set ws = set (words s) \<and>
          fcard (usedWords s') = length (words s) \<and>
          (\<exists>w \<in> set (words s).
             getRandomWord r s' = (Inr (Some w), s'\<lparr>usedWords := {|word w|}\<rparr>))"
    using run(1,4) cover by blast
qed

text \<open>
  The claim as stated fails: \<open>null\<close> with a non-empty word list, once on a service
  whose load failed (fallback words, not initialized), once on an initialized service
  whose two words share their text (the second call finds no word left and does not
  reset).
\<close>

theorem getRandomWord_null_counterexample:
  "words fallbackUninitialized \<noteq> [] \<and>
   fst (getRandomWord 0 fallbackUninitialized) = Inr None \<and>
   isInitialized duplicateService \<and>
   length (words duplicateService) = 2 \<and>
   fcard (usedWords (snd (getRandomWord 0 duplicateService))) = 1 \<and>
   fst (getRandomWord 0 (snd (getRandomWord 0 duplicateService))) = Inr None"
  by code_simp

lemma exhaustedService_full:
  "distinct (map word (words exhaustedService)) \<and> isInitialized exhaustedService \<and>
   words exhaustedService \<noteq> [] \<and>
   length (words exhaustedService) \<le> fcard (usedWords exhaustedService)"
  by code_simp

theorem getRandomWord_no_repeat_witness:
  "distinct (map word (words twoWordsService)) \<and> (0::rat) \<le> 1 / 2 \<and> (1 / 2 ::rat) < 1 \<and>
   isInitialized twoWordsService \<and> words twoWordsService \<noteq> [] \<and>
   usedWords twoWordsService = {||} \<and>
   fcard (usedWords twoWordsService) < length (words twoWordsService) \<and>
   length [0, 1 / 2 :: rat] = length (words twoWordsService) \<and>
   list_all (\<lambda>q. 0 \<le> q \<and> q < 1) [0, 1 / 2 :: rat] \<and>
   fst (getRandomWord (1 / 2) twoWordsService) \<noteq> Inr None \<and>
   (\<exists>w \<in> set (words twoWordsService). word w |\<notin>| usedWords twoWordsService \<and>
      getRandomWord (1 / 2) twoWordsService =
        (Inr (Some w), twoWordsService\<lparr>usedWords := finsert (word w) (usedWords twoWordsService)\<rparr>)) \<and>
   (\<exists>ws s'. getRandomWords [0, 1 / 2] twoWordsService = (map (\<lambda>w. Inr (Some w)) ws, s') \<and>
      distinct (map word ws) \<and> set ws = set (words twoWordsService) \<and>
      fcard (usedWords s') = length (words twoWordsService) \<and>
      (\<exists>w \<in> set (words twoWordsService).
         getRandomWord (1 / 2) s' = (Inr (Some w), s'\<lparr>usedWords := {|word w|}\<rparr>))) \<and>
   distinct (map word (words exhaustedService)) \<and> isInitialized exhaustedService \<and>
   words exhaustedService \<noteq> [] \<and>
   length (words exhaustedService) \<le> fcard (usedWords exhaustedService) \<and>
   (\<exists>w \<in> set (words exhaustedService).
      getRandomWord (1 / 2) exhaustedService = (Inr (Some w), exhaustedService\<lparr>usedWords := {|word w|}\<rparr>))"
proof -
  have d: "distinct (map word (words twoWordsService))"
    by (simp add: words_twoWordsService js_def)
  have r0: "(0::rat) \<le> 1 / 2" by simp
  have r1: "(1 / 2 ::rat) < 1" by simp
  have i: "isInitialized twoWordsService" using twoWordsService_ready by simp
  have ne: "words twoWordsService \<noteq> []" by (simp add: words_twoWordsService)
  have u: "usedWords twoWordsService = {||}" using twoWordsService_ready by simp
  have few: "fcard (usedWords twoWordsService) < length (words twoWordsService)"
    by (simp add: u words_twoWordsService fcard_fempty)
  have len: "length [0, 1 / 2 :: rat] = length (words twoWordsService)"
    by (simp add: words_twoWordsService)
  have l: "list_all (\<lambda>q. 0 \<le> q \<and> q < 1) [0, 1 / 2 :: rat]" by simp
  have q: "\<forall>q \<in> set [0, 1 / 2 :: rat]. 0 \<le> q \<and> q < 1" by simp
  note inst = getRandomWord_no_repeat[OF d r0 r1, of "[0, 1 / 2]"]
  have "(fst (getRandomWord (1 / 2) twoWordsService) = Inr None) =
          (\<not> isInitialized twoWordsService \<or> words twoWordsService = [])"
    by (rule inst[THEN conjunct1])
  then have a: "fst (getRandomWord (1 / 2) twoWordsService) \<noteq> Inr None"
    using i ne by simp
  have b: "\<exists>w \<in> set (words twoWordsService). word w |\<notin>| usedWords twoWordsService \<and>
      getRandomWord (1 / 2) twoWordsService =
        (Inr (Some w), twoWordsService\<lparr>usedWords := finsert (word w) (usedWords twoWordsService)\<rparr>)"
    by (rule inst[THEN conjunct2, THEN conjunct1, THEN mp]) (intro conjI i ne few)
  have c: "\<exists>ws s'. getRandomWords [0, 1 / 2] twoWordsService = (map (\<lambda>w. Inr (Some w)) ws, s') \<and>
      distinct (map word ws) \<and> set ws = set (words twoWordsService) \<and>
      fcard (usedWords s') = length (words twoWordsService) \<and>
      (\<exists>w \<in> set (words twoWordsService).
         getRandomWord (1 / 2) s' = (Inr (Some w), s'\<lparr>usedWords := {|word w|}\<rparr>))"
    by (rule inst[THEN conjunct2, THEN conjunct2, THEN conjunct2, THEN mp])
       (intro conjI i ne u len q)
  have dE: "distinct (map word (words exhaustedService))"
    using exhaustedService_full by (rule conjunct1)
  have iE: "isInitialized exhaustedService"
    using exhaustedService_full by (rule conjunct2[THEN conjunct1])
  have neE: "words exhaustedService \<noteq> []"
    using exhaustedService_full by (rule conjunct2[THEN conjunct2, THEN conjunct1])
  have fullE: "length (words exhaustedService) \<le> fcard (usedWords exhaustedService)"
    using exhaustedService_full by (rule conjunct2[THEN conjunct2, THEN conjunct2])
  have e: "\<exists>w \<in> set (words exhaustedService).
      getRandomWord (1 / 2) exhaustedService = (Inr (Some w), exhaustedService\<lparr>usedWords := {|word w|}\<rparr>)"
    by (rule getRandomWord_no_repeat[OF dE r0 r1, of "[]", THEN conjunct2, THEN conjunct2,
          THEN conjunct1, THEN mp])
       (intro conjI iE neE fullE)
  show ?thesis
    by (intro conjI d r0 r1 i ne u few len l a b c dE iE neE fullE e)
qed

section \<open>History and streak\<close>

lemma isValidUserId_NumId [simp]: "isValidUserId (NumId n) = (n > 0)"
  by (simp add: isValidUserId_def)

text \<open>
  C2. The first word a user ever sees leaves the streak at \<open>0\<close>, and so does a second
  word one day later: \<open>addToHistory\<close> overwrites \<open>lastUsed\<close> before \<open>updateStreak\<close>
  reads it.
\<close>

theorem addToHistory_streak_stays_zero:
  "streakOf (NumId 7) firstDay = Some 0 \<and> streakOf (NumId 7) secondDay = Some 0"
  by (simp add: streakOf_def firstDay_def secondDay_def addToHistory_def getUserData_def
      UserService_new_def newUserData_def updateStreak_def msPerDay_def Let_def)

text \<open>
  In general: when the two clock reads of one call are less than a day apart, the call
  leaves the streak as it was (\<open>0\<close> for a new user).
\<close>

lemma updateStreak_same_call:
  assumes "lastUsed (user_stats u) = Some t_used" "t_used \<le> t_now" "t_now < t_used + msPerDay"
  shows "updateStreak t_now u = u"
proof -
  have "(t_now - t_used) div msPerDay = 0"
    using assms(2,3) by (simp add: msPerDay_def)
  then show ?thesis using assms(1) by (simp add: updateStreak_def)
qed

lemma addToHistory_streak_unchanged:
  assumes "isValidUserId userId" "t_used \<le> t_now" "t_now < t_used + msPerDay"
  shows "streakOf userId (addToHistory userId (Some w) t_entry t_used t_now s) =
           Some (case users s userId of None \<Rightarrow> 0 | Some u \<Rightarrow> streak (user_stats u))"
proof -
  obtain u s1 where g: "getUserData userId s = (u, s1)" by (cases "getUserData userId s")
  have su: "streak (user_stats u) = (case users s userId of None \<Rightarrow> 0 | Some u \<Rightarrow> streak (user_stats u))"
    using g by (auto simp: getUserData_def newUserData_def split: option.splits)
  let ?h1 = "historyEntryOf w t_entry # history u"
  let ?u1 = "u\<lparr>history := (if length ?h1 > 50 then take 50 ?h1 else ?h1)\<rparr>"
  let ?u2 = "?u1\<lparr>user_stats := (user_stats ?u1)\<lparr>totalWords := totalWords (user_stats ?u1) + 1\<rparr>\<rparr>"
  let ?u3 = "?u2\<lparr>user_stats := (user_stats ?u2)\<lparr>lastUsed := Some t_used\<rparr>\<rparr>"
  have "updateStreak t_now ?u3 = ?u3"
    by (rule updateStreak_same_call[OF _ assms(2,3)]) simp
  then have "addToHistory userId (Some w) t_entry t_used t_now s = s1\<lparr>users := (users s1)(userId \<mapsto> ?u3)\<rparr>"
    using assms(1) g by (simp add: addToHistory_def Let_def)
  then show ?thesis using su by (simp add: streakOf_def)
qed

text \<open>
  C10, as the code has it. A call of \<open>addToHistory\<close> with a user id that
  \<open>isValidUserId\<close> rejects (\<open>parseInt\<close> of it is \<open>NaN\<close> or not above \<open>0\<close>), or with an
  absent word, changes nothing; a number that is not positive is such an id.
\<close>

theorem addToHistory_noop:
  "(\<not> isValidUserId userId \<or> w = None \<longrightarrow> addToHistory userId w t_entry t_used t_now s = s) \<and>
   (n \<le> 0 \<longrightarrow> addToHistory (NumId n) w t_entry t_used t_now s = s)"
  by (auto simp: addToHistory_def split: option.splits)

text \<open>
  The claim as stated fails: the id \<open>"1.5"\<close> is not a positive integer, yet
  \<open>parseInt\<close> reads \<open>1\<close> from it and the call creates a profile with one history entry.
\<close>

theorem addToHistory_noop_counterexample:
  "\<not> isPositiveInteger (StrId (js ''1.5'')) \<and>
   users UserService_new (StrId (js ''1.5'')) = None \<and>
   map_option (\<lambda>u. length (history u))
     (users (addToHistory (StrId (js ''1.5'')) (Some sampleWord) 0 0 0 UserService_new) (StrId (js ''1.5''))) = Some 1"
  by code_simp

theorem addToHistory_noop_witness:
  "\<not> isValidUserId (StrId (js ''abc'')) \<and> (- 3 :: int) \<le> 0 \<and>
   addToHistory (StrId (js ''abc'')) (Some sampleWord) 1 2 3 firstDay = firstDay \<and>
   addToHistory (NumId 7) None 1 2 3 firstDay = firstDay \<and>
   addToHistory (NumId (- 3)) (Some sampleWord) 1 2 3 firstDay = firstDay"
proof -
  have h: "\<not> isValidUserId (StrId (js ''abc''))" by code_simp
  show ?thesis
    using h addToHistory_noop[of "StrId (js ''abc'')" "Some sampleWord" 1 2 3 firstDay "- 3"]
      addToHistory_noop[of "NumId 7" None 1 2 3 firstDay "- 3"]
    by simp
qed

text \<open>What one recording, and a list of recordings, does to a user's stored history.\<close>

lemma history_updateStreak: "history (updateStreak now u) = history u"
  by (simp add: updateStreak_def Let_def split: option.splits)

lemma historyOf_addToHistory:
  assumes "isValidUserId userId"
  shows "historyOf userId (addToHistory userId (Some w) t_entry t_used t_now s) =
           take 50 (historyEntryOf w t_entry # historyOf userId s)"
proof -
  obtain u s1 where g: "getUserData userId s = (u, s1)" by (cases "getUserData userId s")
  have hu: "history u = historyOf userId s"
    using g by (auto simp: getUserData_def newUserData_def historyOf_def split: option.splits)
  show ?thesis
    using assms g hu
    by (simp add: addToHistory_def Let_def historyOf_def history_updateStreak)
qed

lemma take_append_take: "take n (xs @ take n ys) = take n (xs @ ys)"
  by simp

lemma historyOf_addAllToHistory:
  assumes "isValidUserId userId" "rs \<noteq> []"
  shows "historyOf userId (addAllToHistory userId rs s) =
           take 50 (rev (map recordedEntry rs) @ historyOf userId s)"
  using assms(2)
proof (induction rs arbitrary: s)
  case Nil
  then show ?case by simp
next
  case (Cons rec rest)
  obtain w t_entry t_used t_now where rec: "rec = (w, t_entry, t_used, t_now)"
    by (cases rec) auto
  let ?s1 = "addToHistory userId (Some w) t_entry t_used t_now s"
  have h1: "historyOf userId ?s1 = take 50 (recordedEntry rec # historyOf userId s)"
    using historyOf_addToHistory[OF assms(1)] by (simp add: rec recordedEntry_def)
  show ?case
  proof (cases "rest = []")
    case True
    then show ?thesis using h1 by (simp add: rec)
  next
    case False
    then have "historyOf userId (addAllToHistory userId rest ?s1) =
                 take 50 (rev (map recordedEntry rest) @ historyOf userId ?s1)"
      by (rule Cons.IH)
    also have "\<dots> = take 50 (rev (map recordedEntry rest) @ recordedEntry rec # historyOf userId s)"
      unfolding h1 by (rule take_append_take)
    finally show ?thesis by (simp add: rec)
  qed
qed

lemma getHistory_valid:
  assumes "isValidUserId userId"
  shows "fst (getHistory userId limit s) =
           slice0 (historyOf userId s) (case limit of None \<Rightarrow> 10 | Some l \<Rightarrow> l)"
proof -
  obtain u s1 where g: "getUserData userId s = (u, s1)" by (cases "getUserData userId s")
  have hu: "history u = historyOf userId s"
    using g by (auto simp: getUserData_def newUserData_def historyOf_def split: option.splits)
  show ?thesis using assms g hu by (simp add: getHistory_def)
qed

lemma recordedEntry_fields:
  "h_word (recordedEntry rec) = word (fst rec) \<and>
   h_definition (recordedEntry rec) = defn (fst rec) \<and>
   h_emoji (recordedEntry rec) = emoji (fst rec) \<and>
   h_timestamp (recordedEntry rec) = fst (snd rec) \<and>
   h_difficulty (recordedEntry rec) = calculateWordDifficulty (fst rec)"
  by (cases rec) (simp add: recordedEntry_def historyEntryOf_def)

lemma map_field_recorded:
  assumes "\<And>rec. f (recordedEntry rec) = g rec"
  shows "map f (take n (rev (map recordedEntry rs))) = take n (rev (map g rs))"
  by (simp add: take_map rev_map assms)

lemma slice0_eq:
  "slice0 xs limit =
     (if 0 \<le> limit then take (nat limit) xs else take (length xs - nat (- limit)) xs)"
proof (cases "0 \<le> limit")
  case True
  then show ?thesis by (simp add: slice0_def)
next
  case False
  then have "nat (int (length xs) + limit) = length xs - nat (- limit)" by linarith
  with False show ?thesis by (simp add: slice0_def)
qed

text \<open>
  C8, as the code has it. After sixty recordings for one valid user, \<open>getHistory\<close> with
  limit \<open>1000\<close> returns exactly fifty entries: the words, definitions, emoji and
  timestamps of the last fifty recordings, the most recently recorded first. For a limit
  that is not negative \<open>getHistory\<close> returns the first \<open>limit\<close> entries of that order;
  for a negative limit it returns that order without its last \<open>-limit\<close> entries; with
  no limit it returns the first ten.
\<close>

theorem history_capped_most_recent_first:
  assumes "isValidUserId userId" "length rs = 60"
  shows "length (fst (getHistory userId (Some 1000) (addAllToHistory userId rs s))) = 50 \<and>
         map h_word (fst (getHistory userId (Some 1000) (addAllToHistory userId rs s))) =
           take 50 (rev (map (\<lambda>rec. word (fst rec)) rs)) \<and>
         map h_definition (fst (getHistory userId (Some 1000) (addAllToHistory userId rs s))) =
           take 50 (rev (map (\<lambda>rec. defn (fst rec)) rs)) \<and>
         map h_emoji (fst (getHistory userId (Some 1000) (addAllToHistory userId rs s))) =
           take 50 (rev (map (\<lambda>rec. emoji (fst rec)) rs)) \<and>
         map h_timestamp (fst (getHistory userId (Some 1000) (addAllToHistory userId rs s))) =
           take 50 (rev (map (\<lambda>rec. fst (snd rec)) rs)) \<and>
         map h_difficulty (fst (getHistory userId (Some 1000) (addAllToHistory userId rs s))) =
           take 50 (rev (map (\<lambda>rec. calculateWordDifficulty (fst rec)) rs)) \<and>
         h_word (hd (fst (getHistory userId (Some 1000) (addAllToHistory userId rs s)))) =
           word (fst (last rs)) \<and>
         h_timestamp (hd (fst (getHistory userId (Some 1000) (addAllToHistory userId rs s)))) =
           fst (snd (last rs)) \<and>
         fst (getHistory userId (Some 1000) (addAllToHistory userId rs s)) =
           take 50 (rev (map recordedEntry rs)) \<and>
         (\<forall>limit. fst (getHistory userId (Some limit) (addAllToHistory userId rs s)) =
            (if 0 \<le> limit
             then take (nat limit) (fst (getHistory userId (Some 1000) (addAllToHistory userId rs s)))
             else take (50 - nat (- limit))
                    (fst (getHistory userId (Some 1000) (addAllToHistory userId rs s))))) \<and>
         fst (getHistory userId None (addAllToHistory userId rs s)) =
           take 10 (fst (getHistory userId (Some 1000) (addAllToHistory userId rs s))) \<and>
         (\<forall>limit. fst (getHistory userId (Some limit) s') =
            (if 0 \<le> limit then take (nat limit) (historyOf userId s')
             else take (length (historyOf userId s') - nat (- limit)) (historyOf userId s')))"
proof -
  let ?S = "addAllToHistory userId rs s"
  let ?H = "take 50 (rev (map recordedEntry rs))"
  have ne: "rs \<noteq> []" using assms(2) by auto
  have "historyOf userId ?S = take 50 (rev (map recordedEntry rs) @ historyOf userId s)"
    by (rule historyOf_addAllToHistory[OF assms(1) ne])
  then have h: "historyOf userId ?S = ?H"
    using assms(2) by simp
  have l: "length ?H = 50" using assms(2) by simp
  have g: "fst (getHistory userId (Some 1000) ?S) = ?H"
    using l by (simp add: getHistory_valid[OF assms(1)] h slice0_eq)
  have "hd ?H = hd (rev (map recordedEntry rs))"
    by simp
  also have "\<dots> = recordedEntry (last rs)"
    using ne by (simp add: hd_rev last_map)
  finally have f: "hd ?H = recordedEntry (last rs)" .
  have w: "map h_word ?H = take 50 (rev (map (\<lambda>rec. word (fst rec)) rs))"
    by (rule map_field_recorded) (simp add: recordedEntry_fields)
  have d: "map h_definition ?H = take 50 (rev (map (\<lambda>rec. defn (fst rec)) rs))"
    by (rule map_field_recorded) (simp add: recordedEntry_fields)
  have e: "map h_emoji ?H = take 50 (rev (map (\<lambda>rec. emoji (fst rec)) rs))"
    by (rule map_field_recorded) (simp add: recordedEntry_fields)
  have t: "map h_timestamp ?H = take 50 (rev (map (\<lambda>rec. fst (snd rec)) rs))"
    by (rule map_field_recorded) (simp add: recordedEntry_fields)
  have c: "map h_difficulty ?H = take 50 (rev (map (\<lambda>rec. calculateWordDifficulty (fst rec)) rs))"
    by (rule map_field_recorded) (simp add: recordedEntry_fields)
  have hw: "h_word (hd ?H) = word (fst (last rs))"
    by (simp only: f recordedEntry_fields)
  have ht: "h_timestamp (hd ?H) = fst (snd (last rs))"
    by (simp only: f recordedEntry_fields)
  have lim: "\<forall>limit. fst (getHistory userId (Some limit) ?S) =
            (if 0 \<le> limit then take (nat limit) ?H else take (50 - nat (- limit)) ?H)"
    using l by (simp add: getHistory_valid[OF assms(1)] h slice0_eq)
  have dflt: "fst (getHistory userId None ?S) = take 10 ?H"
    by (simp add: getHistory_valid[OF assms(1)] h slice0_eq)
  have gen: "\<forall>limit. fst (getHistory userId (Some limit) s') =
            (if 0 \<le> limit then take (nat limit) (historyOf userId s')
             else take (length (historyOf userId s') - nat (- limit)) (historyOf userId s'))"
    by (simp add: getHistory_valid[OF assms(1)] slice0_eq)
  show ?thesis
    unfolding g
    by (intro conjI l w d e t c hw ht refl lim dflt gen)
qed

text \<open>
  The claim as stated fails at a negative limit: on a history of twelve entries
  \<open>getHistory\<close> with limit \<open>-2\<close> returns ten entries, not the first \<open>-2\<close> (none).
\<close>

theorem history_negative_limit_counterexample:
  "length (historyOf (NumId 7) twelveStore) = 12 \<and>
   length (fst (getHistory (NumId 7) (Some (- 2)) twelveStore)) = 10 \<and>
   length (take (nat (- 2)) (historyOf (NumId 7) twelveStore)) = 0"
  by code_simp

lemma length_sixtyWords: "length sixtyWords = 60"
  by (simp add: sixtyWords_def)

lemma last_sixtyWords:
  "word (fst (last sixtyWords)) = js ''Gem9'' \<and> fst (snd (last sixtyWords)) = 59"
  by code_simp

theorem history_capped_most_recent_first_witness:
  "isValidUserId (NumId 7) \<and> length sixtyWords = 60 \<and>
   length (fst (getHistory (NumId 7) (Some 1000) sixtyStore)) = 50 \<and>
   h_word (hd (fst (getHistory (NumId 7) (Some 1000) sixtyStore))) = js ''Gem9'' \<and>
   h_timestamp (hd (fst (getHistory (NumId 7) (Some 1000) sixtyStore))) = 59 \<and>
   fst (getHistory (NumId 7) (Some 3) sixtyStore) =
     take 3 (fst (getHistory (NumId 7) (Some 1000) sixtyStore)) \<and>
   fst (getHistory (NumId 7) (Some (- 2)) sixtyStore) =
     take 48 (fst (getHistory (NumId 7) (Some 1000) sixtyStore))"
proof -
  have v: "isValidUserId (NumId 7)" by simp
  note inst = history_capped_most_recent_first[OF v length_sixtyWords, of UserService_new sixtyStore,
      folded sixtyStore_def]
  have a: "length (fst (getHistory (NumId 7) (Some 1000) sixtyStore)) = 50"
    by (rule inst[THEN conjunct1])
  have "h_word (hd (fst (getHistory (NumId 7) (Some 1000) sixtyStore))) = word (fst (last sixtyWords))"
    by (rule inst[THEN conjunct2, THEN conjunct2, THEN conjunct2, THEN conjunct2, THEN conjunct2, THEN conjunct2, THEN conjunct1])
  then have b: "h_word (hd (fst (getHistory (NumId 7) (Some 1000) sixtyStore))) = js ''Gem9''"
    by (simp only: last_sixtyWords)
  have "h_timestamp (hd (fst (getHistory (NumId 7) (Some 1000) sixtyStore))) = fst (snd (last sixtyWords))"
    by (rule inst[THEN conjunct2, THEN conjunct2, THEN conjunct2, THEN conjunct2, THEN conjunct2, THEN conjunct2, THEN conjunct2, THEN conjunct1])
  then have c: "h_timestamp (hd (fst (getHistory (NumId 7) (Some 1000) sixtyStore))) = 59"
    by (simp only: last_sixtyWords)
  have lim: "\<forall>limit. fst (getHistory (NumId 7) (Some limit) sixtyStore) =
            (if 0 \<le> limit
             then take (nat limit) (fst (getHistory (NumId 7) (Some 1000) sixtyStore))
             else take (50 - nat (- limit)) (fst (getHistory (NumId 7) (Some 1000) sixtyStore)))"
    by (rule inst[THEN conjunct2, THEN conjunct2, THEN conjunct2, THEN conjunct2, THEN conjunct2, THEN conjunct2, THEN conjunct2, THEN conjunct2, THEN conjunct2, THEN conjunct1])
  have d: "fst (getHistory (NumId 7) (Some 3) sixtyStore) =
     take 3 (fst (getHistory (NumId 7) (Some 1000) sixtyStore))"
    using lim[THEN spec, of 3] by simp
  have e: "fst (getHistory (NumId 7) (Some (- 2)) sixtyStore) =
     take 48 (fst (getHistory (NumId 7) (Some 1000) sixtyStore))"
    using lim[THEN spec, of "- 2"] by simp
  show ?thesis by (intro conjI v length_sixtyWords a b c d e)
qed

section \<open>Word of the day and the independent random word\<close>

lemma randomIndex_empty: "randomIndex r 0 = 0"
  by (simp add: randomIndex_def)

text \<open>
  C4, as the code has it. On an empty list \<open>UserService.getRandomWord\<close> returns
  \<open>undefined\<close> and raises nothing; \<open>getWordOfTheDay\<close> returns the cached word when
  one is cached for today, and throws a \<open>TypeError\<close> otherwise. On a non-empty list,
  with a draw \<open>0 \<le> r < 1\<close>, neither fails: \<open>getRandomWord\<close> returns a word of the
  list, \<open>getWordOfTheDay\<close> a word of the list or the word cached for today.
\<close>

theorem random_picks_on_lists:
  "UserService_getRandomWord [] r = Inr None \<and>
   (ws \<noteq> [] \<and> 0 \<le> r \<and> r < 1 \<longrightarrow>
      (\<exists>w \<in> set ws. UserService_getRandomWord ws r = Inr (Some w))) \<and>
   (ws \<noteq> [] \<and> 0 \<le> r \<and> r < 1 \<longrightarrow>
      (\<exists>w. fst (getWordOfTheDay ws today r s) = Inr w \<and>
           (w \<in> set ws \<or> (wordOfTheDay s = Some w \<and> wordOfTheDayDate s = Some today)))) \<and>
   fst (getWordOfTheDay [] today r s) =
     (if wordOfTheDayDate s = Some today
      then (case wordOfTheDay s of Some w \<Rightarrow> Inr w | None \<Rightarrow> Inl TypeError)
      else Inl TypeError)"
proof (intro conjI impI)
  show "UserService_getRandomWord [] r = Inr None"
    by (simp add: UserService_getRandomWord_def randomIndex_empty at_index_def)
next
  assume "ws \<noteq> [] \<and> 0 \<le> r \<and> r < 1"
  then show "\<exists>w \<in> set ws. UserService_getRandomWord ws r = Inr (Some w)"
    using at_index_random[of r ws] by (auto simp: UserService_getRandomWord_def)
next
  assume a: "ws \<noteq> [] \<and> 0 \<le> r \<and> r < 1"
  then obtain w where w: "at_index ws (randomIndex r (length ws)) = Some w" "w \<in> set ws"
    using at_index_random[of r ws] by auto
  show "\<exists>w. fst (getWordOfTheDay ws today r s) = Inr w \<and>
           (w \<in> set ws \<or> (wordOfTheDay s = Some w \<and> wordOfTheDayDate s = Some today))"
  proof (cases "wordOfTheDayDate s \<noteq> Some today \<or> wordOfTheDay s = None")
    case True
    then have "fst (getWordOfTheDay ws today r s) = Inr w"
      using w(1) by (simp add: getWordOfTheDay_def)
    then show ?thesis using w(2) by blast
  next
    case False
    then obtain c where c: "wordOfTheDay s = Some c" "wordOfTheDayDate s = Some today" by auto
    then have "fst (getWordOfTheDay ws today r s) = Inr c"
      by (simp add: getWordOfTheDay_def)
    then show ?thesis using c by blast
  qed
next
  show "fst (getWordOfTheDay [] today r s) =
     (if wordOfTheDayDate s = Some today
      then (case wordOfTheDay s of Some w \<Rightarrow> Inr w | None \<Rightarrow> Inl TypeError)
      else Inl TypeError)"
    by (simp add: getWordOfTheDay_def randomIndex_empty at_index_def split: option.splits)
qed

text \<open>
  The claim as stated fails: on the empty list \<open>getRandomWord\<close> returns \<open>undefined\<close>
  without an error and \<open>getWordOfTheDay\<close> returns the cached word; on a non-empty list
  \<open>getWordOfTheDay\<close> returns the cached word, which is not in the list.
\<close>

theorem empty_catalog_counterexample:
  "UserService_getRandomWord [] (1 / 2) = Inr None \<and>
   fst (getWordOfTheDay [] (js ''Mon Nov 02 2026'') (1 / 2) cachedService) = Inr sampleWord \<and>
   fst (getWordOfTheDay [otherWord] (js ''Mon Nov 02 2026'') (1 / 2) cachedService) = Inr sampleWord \<and>
   sampleWord \<notin> set [otherWord]"
  by code_simp

theorem random_picks_on_lists_witness:
  "[sampleWord, otherWord] \<noteq> [] \<and> (0::rat) \<le> 1 / 2 \<and> (1 / 2 ::rat) < 1 \<and>
   (\<exists>w \<in> set [sampleWord, otherWord].
      UserService_getRandomWord [sampleWord, otherWord] (1 / 2) = Inr (Some w)) \<and>
   (\<exists>w. fst (getWordOfTheDay [sampleWord, otherWord] (js ''Tue Nov 03 2026'') (1 / 2) cachedService) = Inr w \<and>
        (w \<in> set [sampleWord, otherWord] \<or>
         (wordOfTheDay cachedService = Some w \<and> wordOfTheDayDate cachedService = Some (js ''Tue Nov 03 2026''))))"
proof -
  have h: "[sampleWord, otherWord] \<noteq> [] \<and> (0::rat) \<le> 1 / 2 \<and> (1 / 2 ::rat) < 1" by simp
  show ?thesis
    using h random_picks_on_lists[of "1 / 2" "[sampleWord, otherWord]" "(js ''Tue Nov 03 2026'')" cachedService]
    by blast
qed

lemma getWordOfTheDay_cached:
  assumes "wordOfTheDay s = Some w" "wordOfTheDayDate s = Some d"
  shows "getWordOfTheDay ws d r s = (Inr w, s)"
  using assms by (simp add: getWordOfTheDay_def)

lemma getWordOfTheDay_caches:
  assumes "ws \<noteq> []" "0 \<le> r" "r < 1"
  shows "\<exists>w s1. getWordOfTheDay ws today r s = (Inr w, s1) \<and>
           wordOfTheDay s1 = Some w \<and> wordOfTheDayDate s1 = Some today"
proof -
  obtain x where x: "at_index ws (randomIndex r (length ws)) = Some x"
    using at_index_random[OF assms(2,3,1)] by auto
  show ?thesis
  proof (cases "wordOfTheDayDate s \<noteq> Some today \<or> wordOfTheDay s = None")
    case True
    then show ?thesis using x by (simp add: getWordOfTheDay_def)
  next
    case False
    then obtain c where "wordOfTheDay s = Some c" "wordOfTheDayDate s = Some today" by auto
    then show ?thesis by (simp add: getWordOfTheDay_def)
  qed
qed

lemma getWordOfTheDay_new_date:
  assumes "wordOfTheDayDate s \<noteq> Some d" "ws \<noteq> []" "0 \<le> r" "r < 1"
  shows "\<exists>w \<in> set ws. getWordOfTheDay ws d r s =
           (Inr w, s\<lparr>wordOfTheDay := Some w, wordOfTheDayDate := Some d\<rparr>)"
proof -
  obtain x where x: "at_index ws (randomIndex r (length ws)) = Some x" "x \<in> set ws"
    using at_index_random[OF assms(3,4,2)] by auto
  then show ?thesis using assms(1) by (auto simp: getWordOfTheDay_def)
qed

text \<open>
  C9. A call of \<open>getWordOfTheDay\<close> on a non-empty list returns a word, and every later
  call on the same date returns that same word and leaves the cache as it is, whatever
  list and draw it is given and whatever has happened to the user profiles in between
  (the method takes no user). A call on another date draws a new word from its list and
  caches it for that date.
\<close>

theorem getWordOfTheDay_same_date:
  assumes "ws \<noteq> []" "0 \<le> r" "r < 1"
  shows "\<exists>w s1. getWordOfTheDay ws today r s = (Inr w, s1) \<and>
           (\<forall>ws2 r2 u. getWordOfTheDay ws2 today r2 (s1\<lparr>users := u\<rparr>) = (Inr w, s1\<lparr>users := u\<rparr>)) \<and>
           (\<forall>ws2 r2 d2. d2 \<noteq> today \<and> ws2 \<noteq> [] \<and> 0 \<le> r2 \<and> r2 < 1 \<longrightarrow>
              (\<exists>w2 \<in> set ws2. getWordOfTheDay ws2 d2 r2 s1 =
                 (Inr w2, s1\<lparr>wordOfTheDay := Some w2, wordOfTheDayDate := Some d2\<rparr>)))"
proof -
  from getWordOfTheDay_caches[OF assms] obtain w s1 where
    c: "getWordOfTheDay ws today r s = (Inr w, s1)" "wordOfTheDay s1 = Some w"
       "wordOfTheDayDate s1 = Some today" by blast
  have same: "\<forall>ws2 r2 u. getWordOfTheDay ws2 today r2 (s1\<lparr>users := u\<rparr>) = (Inr w, s1\<lparr>users := u\<rparr>)"
    using c(2,3) by (simp add: getWordOfTheDay_cached)
  have other: "\<forall>ws2 r2 d2. d2 \<noteq> today \<and> ws2 \<noteq> [] \<and> 0 \<le> r2 \<and> r2 < 1 \<longrightarrow>
              (\<exists>w2 \<in> set ws2. getWordOfTheDay ws2 d2 r2 s1 =
                 (Inr w2, s1\<lparr>wordOfTheDay := Some w2, wordOfTheDayDate := Some d2\<rparr>))"
    using c(3) getWordOfTheDay_new_date[of s1] by auto
  show ?thesis using c(1) same other by blast
qed

theorem getWordOfTheDay_same_date_witness:
  "[sampleWord, otherWord] \<noteq> [] \<and> (0::rat) \<le> 1 / 2 \<and> (1 / 2 ::rat) < 1 \<and>
   (js ''Tue Nov 03 2026'') \<noteq> (js ''Mon Nov 02 2026'') \<and> [otherWord] \<noteq> [] \<and>
   (\<exists>w s1. getWordOfTheDay [sampleWord, otherWord] (js ''Mon Nov 02 2026'') (1 / 2) UserService_new = (Inr w, s1) \<and>
      getWordOfTheDay [] (js ''Mon Nov 02 2026'') 0 (s1\<lparr>users := users firstDay\<rparr>) =
        (Inr w, s1\<lparr>users := users firstDay\<rparr>) \<and>
      (\<exists>w2 \<in> set [otherWord]. getWordOfTheDay [otherWord] (js ''Tue Nov 03 2026'') (1 / 2) s1 =
         (Inr w2, s1\<lparr>wordOfTheDay := Some w2, wordOfTheDayDate := Some (js ''Tue Nov 03 2026'')\<rparr>)))"
proof -
  have h: "[sampleWord, otherWord] \<noteq> []" "(0::rat) \<le> 1 / 2" "(1 / 2 ::rat) < 1" by simp_all
  have k: "(js ''Tue Nov 03 2026'') \<noteq> (js ''Mon Nov 02 2026'') \<and> [otherWord] \<noteq> [] \<and> (0::rat) \<le> 1 / 2 \<and> (1 / 2 ::rat) < 1"
    by (simp add: js_def)
  from getWordOfTheDay_same_date[OF h, of "(js ''Mon Nov 02 2026'')" UserService_new]
  obtain w s1 where
    a: "getWordOfTheDay [sampleWord, otherWord] (js ''Mon Nov 02 2026'') (1 / 2) UserService_new = (Inr w, s1)"
    and b: "\<forall>ws2 r2 u. getWordOfTheDay ws2 (js ''Mon Nov 02 2026'') r2 (s1\<lparr>users := u\<rparr>) = (Inr w, s1\<lparr>users := u\<rparr>)"
    and c: "\<forall>ws2 r2 d2. d2 \<noteq> (js ''Mon Nov 02 2026'') \<and> ws2 \<noteq> [] \<and> 0 \<le> r2 \<and> r2 < 1 \<longrightarrow>
              (\<exists>w2 \<in> set ws2. getWordOfTheDay ws2 d2 r2 s1 =
                 (Inr w2, s1\<lparr>wordOfTheDay := Some w2, wordOfTheDayDate := Some d2\<rparr>))"
    by blast
  have b': "getWordOfTheDay [] (js ''Mon Nov 02 2026'') 0 (s1\<lparr>users := users firstDay\<rparr>) =
        (Inr w, s1\<lparr>users := users firstDay\<rparr>)"
    by (rule b[THEN spec, THEN spec, THEN spec])
  have c': "\<exists>w2 \<in> set [otherWord]. getWordOfTheDay [otherWord] (js ''Tue Nov 03 2026'') (1 / 2) s1 =
         (Inr w2, s1\<lparr>wordOfTheDay := Some w2, wordOfTheDayDate := Some (js ''Tue Nov 03 2026'')\<rparr>)"
    by (rule c[THEN spec, THEN spec, THEN spec, THEN mp, OF k])
  have ex: "\<exists>w s1. getWordOfTheDay [sampleWord, otherWord] (js ''Mon Nov 02 2026'') (1 / 2) UserService_new = (Inr w, s1) \<and>
      getWordOfTheDay [] (js ''Mon Nov 02 2026'') 0 (s1\<lparr>users := users firstDay\<rparr>) =
        (Inr w, s1\<lparr>users := users firstDay\<rparr>) \<and>
      (\<exists>w2 \<in> set [otherWord]. getWordOfTheDay [otherWord] (js ''Tue Nov 03 2026'') (1 / 2) s1 =
         (Inr w2, s1\<lparr>wordOfTheDay := Some w2, wordOfTheDayDate := Some (js ''Tue Nov 03 2026'')\<rparr>))"
    by (intro exI[of _ w] exI[of _ s1] conjI a b' c')
  show ?thesis
    by (intro conjI h k[THEN conjunct1] k[THEN conjunct2, THEN conjunct1] ex)
qed

section \<open>Dispatch\<close>

lemma handleMessage_sends:
  "x \<in> set (fst (handleMessage msg b)) =
     (\<exists>t. msg_text msg = Some t \<and> t \<noteq> [] \<and> \<not> isShuttingDown b \<and> \<not> isCommand t \<and>
          isValidUserId (from_id msg) \<and> x = SendMessage (chat_id msg) UNKNOWN_COMMAND)"
  by (auto simp: handleMessage_def handleUnknownCommand_def Let_def split: option.splits)

lemma onTextCallbacks_runs:
  "x \<in> set (onTextCallbacks msg) =
     (\<exists>c. x = ExecuteCommand c \<and> c \<in> set registeredCommands \<and> msg_text msg = Some c)"
  by (auto simp: onTextCallbacks_def onTextMatches_def split: option.splits)

lemma processMessage_effects:
  "set (fst (processMessage msg b)) = set (fst (handleMessage msg b)) \<union> set (onTextCallbacks msg)"
  by (cases "handleMessage msg b") (simp add: processMessage_def)

lemma handler_runs_on_exact_text:
  "(ExecuteCommand c \<in> set (fst (processMessage msg b))) =
     (c \<in> set registeredCommands \<and> msg_text msg = Some c)"
  by (auto simp: processMessage_effects handleMessage_sends onTextCallbacks_runs)

text \<open>
  C6. The leading token of the text \<open>/words\<close> is no registered command, yet the message
  is not routed to the unknown-command handler: \<open>handleMessage\<close> takes it for a command
  because it starts with \<open>/word\<close>, and the expression registered for \<open>/word\<close> does not
  match it. No handler runs and nothing is sent. The text \<open>/foo\<close>, which starts with
  no command, gets the canned reply.
\<close>

theorem unknown_command_dropped:
  "leadingToken (js ''/words'') = js ''/words'' \<and>
   js ''/words'' \<notin> set registeredCommands \<and>
   fst (processMessage (messageWith (js ''/words'')) idleBot) = [] \<and>
   fst (processMessage (messageWith (js ''/foo'')) idleBot) = [SendMessage 42 UNKNOWN_COMMAND] \<and>
   fst (processMessage (messageWith (js ''/word'')) idleBot) = [ExecuteCommand (js ''/word'')]"
proof -
  have token: "leadingToken (js ''/words'') = js ''/words''"
    by (simp add: leadingToken_def js_def isWhiteSpace_def)
  have unregistered: "js ''/words'' \<notin> set registeredCommands"
    by (simp add: js_def registeredCommands_def COMMANDS_def)
  have dropped: "fst (processMessage (messageWith (js ''/words'')) idleBot) = []"
    by (simp add: processMessage_def handleMessage_def messageWith_def idleBot_def isCommand_def
        COMMANDS_def startsWith_def js_def onTextCallbacks_def onTextMatches_def
        registeredCommands_def)
  have unknown: "fst (processMessage (messageWith (js ''/foo'')) idleBot) =
                   [SendMessage 42 UNKNOWN_COMMAND]"
    by (simp add: processMessage_def handleMessage_def messageWith_def idleBot_def isCommand_def
        COMMANDS_def startsWith_def js_def onTextCallbacks_def onTextMatches_def
        registeredCommands_def handleUnknownCommand_def isValidUserId_def)
  have exact: "fst (processMessage (messageWith (js ''/word'')) idleBot) =
                 [ExecuteCommand (js ''/word'')]"
    by (simp add: processMessage_def handleMessage_def messageWith_def idleBot_def isCommand_def
        COMMANDS_def startsWith_def js_def onTextCallbacks_def onTextMatches_def
        registeredCommands_def)
  show ?thesis by (intro conjI token unregistered dropped unknown exact)
qed

end
